theory Spec2Isabelle
  imports Main "HOL-Library.AList"
begin

section \<open>Data model\<close>

text \<open>
  The tracker keeps three records in \<^verbatim>\<open>localStorage\<close>, each a JSON text under its
  own key: \<^verbatim>\<open>activeChallenge\<close>, \<^verbatim>\<open>completions\<close> and \<^verbatim>\<open>archive\<close>. The model
  stores the values themselves (\<^verbatim>\<open>JSON.parse (JSON.stringify v)\<close> gives back \<open>v\<close> for
  the plain objects, arrays, integers, strings and booleans used here), and \<open>None\<close> is
  a key that is not set (\<^verbatim>\<open>getItem\<close> returns \<^verbatim>\<open>null\<close>).

  Instants are integers, the milliseconds since the epoch that a valid \<^verbatim>\<open>Date\<close>
  holds, within the range of \<^verbatim>\<open>Date\<close> (at most 8640000000000000 on either side of
  the epoch). Where a \<^verbatim>\<open>Date\<close> can be invalid, or a number \<^verbatim>\<open>NaN\<close>, the model has
  an \<open>option\<close> and \<open>None\<close> stands for it.
\<close>

text \<open>
  The \<^verbatim>\<open>startDate\<close> of a challenge is the value of a date input. The input is not
  required, so the value is either the text \<^verbatim>\<open>YYYY-MM-DD\<close> of a calendar day, held
  here as the number of that day counted from 1970-01-01, or the empty text, which
  \<^verbatim>\<open>new Date\<close> does not accept.
\<close>

datatype dateString = ISODate int | NotADate

record task =
  emoji :: string
  name :: string
  description :: string

record challenge =
  totalDays :: int
  pointThreshold :: int
  pointReward :: int
  tasks :: "task list"
  startDate :: dateString
  createdAt :: int

text \<open>
  A JavaScript object is an association list with distinct keys. The completions object
  maps a day index to the object of that day, which maps a task index to a boolean.
  Property order is never observed by the functions below.
\<close>

type_synonym dayCompletion = "(int \<times> bool) list"

type_synonym completionMap = "(int \<times> dayCompletion) list"

text \<open>
  An archive element is \<^verbatim>\<open>{...challenge, completions, archivedAt}\<close>: the fields of the
  challenge, extended by two more.
\<close>

record archivedChallenge = challenge +
  completions :: completionMap
  archivedAt :: int

record storage =
  ls_activeChallenge :: "challenge option"
  ls_completions :: "completionMap option"
  ls_archive :: "archivedChallenge list option"

section \<open>Store\<close>

definition getChallenge :: "storage \<Rightarrow> challenge option" where
  "getChallenge st = ls_activeChallenge st"

definition saveChallenge :: "challenge \<Rightarrow> storage \<Rightarrow> storage" where
  "saveChallenge c st = st\<lparr>ls_activeChallenge := Some c\<rparr>"

definition getCompletions :: "storage \<Rightarrow> completionMap" where
  "getCompletions st = (case ls_completions st of None \<Rightarrow> [] | Some m \<Rightarrow> m)"

text \<open>
  \<^verbatim>\<open>saveCompletion\<close> reads the whole object, adds an empty day object when the day has
  none, sets the task's entry inside the day object, and writes the whole object back.
\<close>

definition saveCompletion :: "int \<Rightarrow> int \<Rightarrow> bool \<Rightarrow> storage \<Rightarrow> storage" where
  "saveCompletion dayIndex taskIndex completed st =
     (let m = getCompletions st;
          m1 = (case map_of m dayIndex of
                  None \<Rightarrow> AList.update dayIndex [] m
                | Some _ \<Rightarrow> m);
          m2 = AList.map_entry dayIndex (AList.update taskIndex completed) m1
      in st\<lparr>ls_completions := Some m2\<rparr>)"

definition getDayCompletion :: "storage \<Rightarrow> int \<Rightarrow> dayCompletion" where
  "getDayCompletion st dayIndex =
     (case map_of (getCompletions st) dayIndex of None \<Rightarrow> [] | Some r \<Rightarrow> r)"

definition getArchive :: "storage \<Rightarrow> archivedChallenge list" where
  "getArchive st = (case ls_archive st of None \<Rightarrow> [] | Some a \<Rightarrow> a)"

text \<open>\<open>now\<close> is the instant read by \<^verbatim>\<open>new Date()\<close>.\<close>

definition archiveChallenge :: "int \<Rightarrow> storage \<Rightarrow> storage" where
  "archiveChallenge now st =
     (case getChallenge st of
        None \<Rightarrow> st
      | Some c \<Rightarrow>
          (let m = getCompletions st;
               a = getArchive st @
                     [challenge.extend c (archivedChallenge.fields m now)]
           in st\<lparr>ls_archive := Some a, ls_activeChallenge := None,
                  ls_completions := None\<rparr>))"

definition clearAll :: "storage \<Rightarrow> storage" where
  "clearAll st = st\<lparr>ls_activeChallenge := None, ls_completions := None\<rparr>"

text \<open>\<^verbatim>\<open>localStorage.clear()\<close> removes every key.\<close>

definition localStorage_clear :: "storage \<Rightarrow> storage" where
  "localStorage_clear st =
     \<lparr>ls_activeChallenge = None, ls_completions = None, ls_archive = None\<rparr>"

section \<open>Dates\<close>

text \<open>
  The platform's \<^verbatim>\<open>Date\<close> is modelled after ECMA-262. The local time zone is given by
  its offset from UTC in milliseconds, once as a function of the instant
  (\<^verbatim>\<open>LocalTZA(t, true)\<close>) and once as a function of the local time value
  (\<^verbatim>\<open>LocalTZA(t, false)\<close>); for a zone whose offset never changes both are constant.
\<close>

record zone =
  tzaUTC :: "int \<Rightarrow> int"
  tzaLocal :: "int \<Rightarrow> int"

definition msPerDay :: int where
  "msPerDay = 1000 * 60 * 60 * 24"

definition Day :: "int \<Rightarrow> int" where
  "Day t = t div msPerDay"

definition TimeWithinDay :: "int \<Rightarrow> int" where
  "TimeWithinDay t = t mod msPerDay"

definition LocalTime :: "zone \<Rightarrow> int \<Rightarrow> int" where
  "LocalTime z t = t + tzaUTC z t"

definition UTC :: "zone \<Rightarrow> int \<Rightarrow> int" where
  "UTC z t = t - tzaLocal z t"

text \<open>
  \<^verbatim>\<open>d.setHours(0, 0, 0, 0)\<close>: the local midnight of the local calendar day the
  instant lies in.
\<close>

definition setHours0 :: "zone \<Rightarrow> int \<Rightarrow> int" where
  "setHours0 z t = UTC z (Day (LocalTime z t) * msPerDay)"

text \<open>
  \<^verbatim>\<open>d.setDate(d.getDate() + n)\<close>: the local calendar day moves by \<open>n\<close>, the local
  time of day is kept.
\<close>

definition setDatePlus :: "zone \<Rightarrow> int \<Rightarrow> int \<Rightarrow> int" where
  "setDatePlus z t n =
     (let tl = LocalTime z t
      in UTC z ((Day tl + n) * msPerDay + TimeWithinDay tl))"

text \<open>\<open>now\<close> is the instant read by \<^verbatim>\<open>new Date()\<close>.\<close>

definition getToday :: "zone \<Rightarrow> int \<Rightarrow> int" where
  "getToday z now = setHours0 z now"

text \<open>
  \<^verbatim>\<open>new Date(dateString)\<close> reads a date-only text \<^verbatim>\<open>YYYY-MM-DD\<close> as midnight UTC of
  that day (ECMA-262, Date Time String Format: a date-only form without offset is UTC),
  that is the instant \<open>n * msPerDay\<close> for the day number \<open>n\<close>. For the empty text it
  gives an invalid \<^verbatim>\<open>Date\<close>, which \<^verbatim>\<open>setHours\<close> leaves invalid.
\<close>

definition parseDate :: "zone \<Rightarrow> dateString \<Rightarrow> int option" where
  "parseDate z dateString =
     (case dateString of
        ISODate n \<Rightarrow> Some (setHours0 z (n * msPerDay))
      | NotADate \<Rightarrow> None)"

text \<open>
  The difference of two numbers is the double nearest to the exact difference. Two
  instants differ by less than \<open>2 ^ 54\<close>; up to \<open>2 ^ 53\<close> every integer is a double,
  above it every even integer is one, and an odd integer lies half way between two
  doubles, of which the one divisible by 4 has the even significand.
\<close>

definition roundDouble :: "int \<Rightarrow> int" where
  "roundDouble x =
     (if \<bar>x\<bar> \<le> 9007199254740992 \<or> even x then x
      else if (x + 1) mod 4 = 0 then x + 1
      else x - 1)"

text \<open>
  \<^verbatim>\<open>Math.floor(diffTime / (1000 * 60 * 60 * 24))\<close> for two valid dates. The quotient
  of a double below \<open>2 ^ 54\<close> by 86400000 is either an integer or further from the
  next integer than the rounding error of the division (at least \<open>1 / 86400000\<close>
  where the quotient is below \<open>2 ^ 27\<close>, and \<open>2 / 86400000\<close> above, where the
  numerator is even), so the floor is that of the exact quotient.
\<close>

definition daysBetween :: "int \<Rightarrow> int \<Rightarrow> int" where
  "daysBetween date1 date2 =
     (let diffTime = roundDouble (date2 - date1)
      in diffTime div msPerDay)"

datatype status = Pending | Active | Completed

text \<open>
  The result \<open>None\<close> of \<^verbatim>\<open>getCurrentDayIndex\<close> is \<^verbatim>\<open>NaN\<close>: with an invalid start
  date the difference of the dates is \<^verbatim>\<open>NaN\<close>, and so are its floor,
  \<^verbatim>\<open>Math.min\<close> and \<^verbatim>\<open>Math.max\<close>.
\<close>

definition getCurrentDayIndex :: "zone \<Rightarrow> int \<Rightarrow> storage \<Rightarrow> int option" where
  "getCurrentDayIndex z now st =
     (case getChallenge st of
        None \<Rightarrow> Some 0
      | Some c \<Rightarrow>
          (case parseDate z (startDate c) of
             None \<Rightarrow> None
           | Some start \<Rightarrow>
               (let today = getToday z now;
                    daysPassed = daysBetween start today
                in Some (max 0 (min daysPassed (totalDays c - 1))))))"

text \<open>
  The result \<open>None\<close> of \<^verbatim>\<open>getChallengeStatus\<close> is the \<^verbatim>\<open>null\<close> returned when
  there is no challenge. With an invalid start date both comparisons are false (the end
  date is invalid too) and the status is active.
\<close>

definition getChallengeStatus :: "zone \<Rightarrow> int \<Rightarrow> storage \<Rightarrow> status option" where
  "getChallengeStatus z now st =
     (case getChallenge st of
        None \<Rightarrow> None
      | Some c \<Rightarrow>
          (case parseDate z (startDate c) of
             None \<Rightarrow> Some Active
           | Some start \<Rightarrow>
               (let today = getToday z now;
                    endDate = setDatePlus z start (totalDays c)
                in if today < start then Some Pending
                   else if today \<ge> endDate then Some Completed
                   else Some Active)))"

text \<open>The result \<open>None\<close> of \<^verbatim>\<open>getDaysUntilStart\<close> is \<^verbatim>\<open>NaN\<close>.\<close>

definition getDaysUntilStart :: "zone \<Rightarrow> int \<Rightarrow> storage \<Rightarrow> int option" where
  "getDaysUntilStart z now st =
     (case getChallenge st of
        None \<Rightarrow> Some 0
      | Some c \<Rightarrow>
          (case parseDate z (startDate c) of
             None \<Rightarrow> None
           | Some start \<Rightarrow> Some (daysBetween (getToday z now) start)))"

text \<open>A zone whose offset is the same at all times.\<close>

definition fixedZone :: "int \<Rightarrow> zone" where
  "fixedZone off = \<lparr>tzaUTC = (\<lambda>t. off), tzaLocal = (\<lambda>t. off)\<rparr>"

text \<open>
  The zone Europe/Berlin during 2024: one hour ahead of UTC, and two hours ahead from
  2024-03-31 01:00 UTC (02:00 local becomes 03:00) until 2024-10-27 01:00 UTC (03:00
  local becomes 02:00). A local time that is skipped or repeated takes the offset before
  the transition.
\<close>

definition berlin2024 :: zone where
  "berlin2024 =
     \<lparr>tzaUTC = (\<lambda>t. if 1711846800000 \<le> t \<and> t < 1729990800000
                     then 7200000 else 3600000),
      tzaLocal = (\<lambda>t. if 1711854000000 \<le> t \<and> t < 1729998000000
                       then 7200000 else 3600000)\<rparr>"

text \<open>The zone America/Bogota: five hours behind UTC all year.\<close>

definition bogota :: zone where
  "bogota = fixedZone (- 18000000)"

section \<open>Application state and handlers\<close>

text \<open>
  The module's variables \<^verbatim>\<open>currentTab\<close>, \<^verbatim>\<open>currentDayIndex\<close> and
  \<^verbatim>\<open>currentArchiveIndex\<close>, together with the storage. The markup written by the render
  functions is not modelled; what they do to these variables is.
\<close>

datatype tab = Setup | Daily | Stats | Settings

record app =
  store :: storage
  currentTab :: tab
  currentDayIndex :: int
  currentArchiveIndex :: "nat option"

text \<open>What \<^verbatim>\<open>renderSetupTab\<close> shows.\<close>

datatype setupView = LockedSummary | EditForm | CreateForm

definition renderSetupTab :: "zone \<Rightarrow> int \<Rightarrow> app \<Rightarrow> setupView" where
  "renderSetupTab z now a =
     (let ch = getChallenge (store a);
          status = getChallengeStatus z now (store a)
      in if ch \<noteq> None \<and> status = Some Active then LockedSummary
         else if ch \<noteq> None \<and> status = Some Pending then EditForm
         else CreateForm)"

text \<open>
  \<^verbatim>\<open>Object.values(dayCompletion).filter(Boolean).length\<close>: the number of true values
  of a day object.
\<close>

definition completedCount :: "dayCompletion \<Rightarrow> int" where
  "completedCount r = int (length (filter (\<lambda>v. v) (map snd r)))"

text \<open>
  \<^verbatim>\<open>renderDailyTab\<close> returns early without a challenge and for a pending one;
  otherwise it brings \<^verbatim>\<open>currentDayIndex\<close> into the range of the challenge.
\<close>

definition renderDailyTab :: "zone \<Rightarrow> int \<Rightarrow> app \<Rightarrow> app" where
  "renderDailyTab z now a =
     (case getChallenge (store a) of
        None \<Rightarrow> a
      | Some c \<Rightarrow>
          if getChallengeStatus z now (store a) = Some Pending then a
          else a\<lparr>currentDayIndex :=
                    max 0 (min (currentDayIndex a) (totalDays c - 1))\<rparr>)"

text \<open>
  The point of the day shown by \<^verbatim>\<open>renderDailyTab\<close>:
  \<^verbatim>\<open>pointEarned = completedCount >= challenge.pointThreshold\<close>.
\<close>

definition dayPointEarned :: "challenge \<Rightarrow> storage \<Rightarrow> int \<Rightarrow> bool" where
  "dayPointEarned c st dayIndex =
     (completedCount (getDayCompletion st dayIndex) \<ge> pointThreshold c)"



definition renderCurrentTab :: "zone \<Rightarrow> int \<Rightarrow> app \<Rightarrow> app" where
  "renderCurrentTab z now a =
     (case currentTab a of
        Setup \<Rightarrow> a
      | Daily \<Rightarrow> renderDailyTab z now a
      | Stats \<Rightarrow> a
      | Settings \<Rightarrow> a)"

definition switchTab :: "zone \<Rightarrow> int \<Rightarrow> tab \<Rightarrow> app \<Rightarrow> app" where
  "switchTab z now tabName a = renderCurrentTab z now (a\<lparr>currentTab := tabName\<rparr>)"

text \<open>
  The values of the challenge form when it is submitted: the three number inputs, the
  date input, and one row per task item with its emoji and its trimmed name and
  description.
\<close>

record challengeForm =
  input_days :: int
  input_threshold :: int
  input_points :: int
  input_start_date :: dateString
  task_items :: "task list"

text \<open>The two messages \<^verbatim>\<open>handleChallengeSubmit\<close> can show before it returns.\<close>

datatype alert = PleaseAddTask | GoalExceedsTasks nat

definition handleChallengeSubmit ::
  "zone \<Rightarrow> int \<Rightarrow> challengeForm \<Rightarrow> app \<Rightarrow> alert + app" where
  "handleChallengeSubmit z now f a =
     (let ts = filter (\<lambda>item. name item \<noteq> []) (task_items f)
      in if length ts = 0 then Inl PleaseAddTask
         else if input_threshold f > int (length ts)
           then Inl (GoalExceedsTasks (length ts))
         else
           (let c = \<lparr>totalDays = input_days f,
                     pointThreshold = input_threshold f,
                     pointReward = input_points f,
                     tasks = ts,
                     startDate = input_start_date f,
                     createdAt = now\<rparr>
            in Inr (switchTab z now Daily
                 (a\<lparr>store := saveChallenge c (store a), currentDayIndex := 0\<rparr>))))"

text \<open>The boolean arguments are the answers given to \<^verbatim>\<open>confirm\<close>.\<close>

definition confirmUnlock :: "zone \<Rightarrow> int \<Rightarrow> bool \<Rightarrow> app \<Rightarrow> app" where
  "confirmUnlock z now ok a =
     (if ok then
        switchTab z now Setup
          (a\<lparr>store := archiveChallenge now (store a), currentDayIndex := 0\<rparr>)
      else a)"

definition confirmDeletePending :: "zone \<Rightarrow> int \<Rightarrow> bool \<Rightarrow> app \<Rightarrow> app" where
  "confirmDeletePending z now ok a =
     (if ok then
        switchTab z now Setup
          (a\<lparr>store := clearAll (store a), currentDayIndex := 0\<rparr>)
      else a)"

definition confirmClearAll :: "zone \<Rightarrow> int \<Rightarrow> bool \<Rightarrow> bool \<Rightarrow> app \<Rightarrow> app" where
  "confirmClearAll z now ok sure a =
     (if ok then
        (if sure then
           switchTab z now Setup
             (a\<lparr>store := localStorage_clear (store a), currentDayIndex := 0,
                currentArchiveIndex := None\<rparr>)
         else a)
      else a)"

section \<open>Statistics\<close>

text \<open>\<^verbatim>\<open>completions[i] || {}\<close>\<close>

definition orEmpty :: "completionMap \<Rightarrow> int \<Rightarrow> dayCompletion" where
  "orEmpty m i = (case map_of m i of None \<Rightarrow> [] | Some r \<Rightarrow> r)"

text \<open>
  The loop of \<^verbatim>\<open>renderStatsTab\<close> over the days of the active challenge; the state is
  \<open>(totalPoints, possiblePoints)\<close>.
\<close>

function liveLoop ::
  "challenge \<Rightarrow> completionMap \<Rightarrow> int \<Rightarrow> int \<times> int \<Rightarrow> int \<times> int" where
  "liveLoop c m i (totalPoints, possiblePoints) =
     (if i < totalDays c then
        (let dayComp = orEmpty m i;
             tasksCompleted = completedCount dayComp
         in if length dayComp > 0 then
              liveLoop c m (i + 1)
                (if tasksCompleted \<ge> pointThreshold c then totalPoints + 1
                 else totalPoints,
                 possiblePoints + 1)
            else liveLoop c m (i + 1) (totalPoints, possiblePoints))
      else (totalPoints, possiblePoints))"
  by pat_completeness auto
termination
  by (relation "measure (\<lambda>(c, m, i, acc). nat (totalDays c - i))") auto

declare liveLoop.simps [simp del]

definition liveTotalPoints :: "challenge \<Rightarrow> completionMap \<Rightarrow> int" where
  "liveTotalPoints c m = fst (liveLoop c m 0 (0, 0))"

text \<open>
  The loop of \<^verbatim>\<open>renderArchiveDetail\<close>; the state is
  \<open>(totalPoints, totalTasksCompleted, totalPossibleTasks)\<close>.
\<close>

function archiveLoop ::
  "archivedChallenge \<Rightarrow> completionMap \<Rightarrow> int \<Rightarrow> int \<times> int \<times> int \<Rightarrow> int \<times> int \<times> int"
  where
  "archiveLoop a m i (totalPoints, totalTasksCompleted, totalPossibleTasks) =
     (if i < totalDays a then
        (let dayComp = orEmpty m i;
             tasksCompleted = completedCount dayComp
         in archiveLoop a m (i + 1)
              (if tasksCompleted \<ge> pointThreshold a then totalPoints + 1
               else totalPoints,
               totalTasksCompleted + tasksCompleted,
               totalPossibleTasks + int (length (tasks a))))
      else (totalPoints, totalTasksCompleted, totalPossibleTasks))"
  by pat_completeness auto
termination
  by (relation "measure (\<lambda>(a, m, i, acc). nat (totalDays a - i))") auto

declare archiveLoop.simps [simp del]

definition archivedTotalPoints :: "archivedChallenge \<Rightarrow> int" where
  "archivedTotalPoints a = fst (archiveLoop a (completions a) 0 (0, 0, 0))"

section \<open>The specification's notions\<close>

text \<open>\<open>clamp x lo hi\<close> as the specification uses it: \<open>x\<close> brought into \<open>[lo, hi]\<close>.\<close>

definition clamp :: "int \<Rightarrow> int \<Rightarrow> int \<Rightarrow> int" where
  "clamp x lo hi = (if x < lo then lo else if hi < x then hi else x)"

text \<open>The number of task indices a day object maps to \<open>true\<close>.\<close>

definition trueCount :: "dayCompletion \<Rightarrow> int" where
  "trueCount r = int (card {t. map_of r t = Some True})"

text \<open>The local calendar day an instant lies in.\<close>

definition localDay :: "zone \<Rightarrow> int \<Rightarrow> int" where
  "localDay z t = Day (LocalTime z t)"

section \<open>Example data\<close>

definition taskA :: task where
  "taskA = \<lparr>emoji = ''A'', name = ''read'', description = ''''\<rparr>"

definition taskB :: task where
  "taskB = \<lparr>emoji = ''B'', name = ''run'', description = ''5 km''\<rparr>"

text \<open>A challenge with the tasks A and B that starts on day \<open>sd\<close>.\<close>

definition challengeAB :: "int \<Rightarrow> int \<Rightarrow> int \<Rightarrow> challenge" where
  "challengeAB sd days threshold =
     \<lparr>totalDays = days, pointThreshold = threshold, pointReward = 1,
      tasks = [taskA, taskB], startDate = ISODate sd, createdAt = 0\<rparr>"

definition oldEntry :: archivedChallenge where
  "oldEntry =
     \<lparr>totalDays = 1, pointThreshold = 1, pointReward = 1, tasks = [taskA],
      startDate = ISODate 19000, createdAt = 0, completions = [(0, [(0, True)])],
      archivedAt = 1641600000000\<rparr>"

text \<open>
  A storage with a challenge of three days from 2024-01-15 (day 19737), one day object
  and one archived challenge.
\<close>

definition busyStore :: storage where
  "busyStore =
     \<lparr>ls_activeChallenge = Some (challengeAB 19737 3 2),
      ls_completions = Some [(0, [(0, True), (1, False)])],
      ls_archive = Some [oldEntry]\<rparr>"

definition busyApp :: app where
  "busyApp =
     \<lparr>store = busyStore, currentTab = Setup, currentDayIndex = 0,
      currentArchiveIndex = None\<rparr>"

text \<open>The storage right after a challenge was created on an empty one.\<close>

definition storeWith :: "challenge \<Rightarrow> storage" where
  "storeWith c = \<lparr>ls_activeChallenge = Some c, ls_completions = None, ls_archive = None\<rparr>"

text \<open>A form that changes the challenge; its second task row has no name.\<close>

definition editForm :: challengeForm where
  "editForm =
     \<lparr>input_days = 7, input_threshold = 1, input_points = 5,
      input_start_date = ISODate 19737,
      task_items = [taskB, \<lparr>emoji = ''C'', name = '''', description = ''''\<rparr>]\<rparr>"

definition editedChallenge :: challenge where
  "editedChallenge =
     \<lparr>totalDays = 7, pointThreshold = 1, pointReward = 5, tasks = [taskB],
      startDate = ISODate 19737, createdAt = 1705320000000\<rparr>"


text \<open>The application before anything was stored.\<close>

definition emptyApp :: app where
  "emptyApp =
     \<lparr>store = \<lparr>ls_activeChallenge = None, ls_completions = None, ls_archive = None\<rparr>,
      currentTab = Setup, currentDayIndex = 0, currentArchiveIndex = None\<rparr>"

text \<open>The form above with its date input left empty, and the challenge it makes.\<close>

definition blankDateForm :: challengeForm where
  "blankDateForm = editForm\<lparr>input_start_date := NotADate\<rparr>"

definition blankDateChallenge :: challenge where
  "blankDateChallenge = editedChallenge\<lparr>startDate := NotADate\<rparr>"

section \<open>Facts about the store\<close>

lemma getDayCompletion_orEmpty: "getDayCompletion st d = orEmpty (getCompletions st) d"
  by (simp add: getDayCompletion_def orEmpty_def)

lemma map_of_saveCompletion:
  "map_of (getCompletions (saveCompletion d t v st)) =
     (map_of (getCompletions st))(d \<mapsto> AList.update t v (orEmpty (getCompletions st) d))"
  by (auto simp: saveCompletion_def getCompletions_def orEmpty_def Let_def
      map_of_map_entry update_conv' fun_eq_iff split: option.splits)

lemma getDayCompletion_saveCompletion:
  "getDayCompletion (saveCompletion d t v st) d' =
     (if d' = d then AList.update t v (getDayCompletion st d) else getDayCompletion st d')"
  by (simp add: getDayCompletion_def orEmpty_def map_of_saveCompletion)

lemma saveCompletion_other_keys:
  "ls_activeChallenge (saveCompletion d t v st) = ls_activeChallenge st"
  "ls_archive (saveCompletion d t v st) = ls_archive st"
  by (simp_all add: saveCompletion_def Let_def)


lemma getArchive_saveCompletion: "getArchive (saveCompletion d t v st) = getArchive st"
  by (simp add: getArchive_def saveCompletion_def Let_def)

text \<open>The day objects keep their keys distinct, as objects do.\<close>

lemma distinct_saveCompletion:
  assumes "distinct (map fst (getDayCompletion st d'))"
  shows "distinct (map fst (getDayCompletion (saveCompletion d t v st) d'))"
  using assms by (auto simp: getDayCompletion_saveCompletion intro: distinct_update)

lemma snapshot_fields:
  "totalDays (challenge.extend c (archivedChallenge.fields m at)) = totalDays c"
  "pointThreshold (challenge.extend c (archivedChallenge.fields m at)) = pointThreshold c"
  "pointReward (challenge.extend c (archivedChallenge.fields m at)) = pointReward c"
  "tasks (challenge.extend c (archivedChallenge.fields m at)) = tasks c"
  "startDate (challenge.extend c (archivedChallenge.fields m at)) = startDate c"
  "createdAt (challenge.extend c (archivedChallenge.fields m at)) = createdAt c"
  "completions (challenge.extend c (archivedChallenge.fields m at)) = m"
  "archivedAt (challenge.extend c (archivedChallenge.fields m at)) = at"
  "challenge.truncate (challenge.extend c (archivedChallenge.fields m at)) = c"
  by (simp_all add: challenge.defs archivedChallenge.defs)

lemma getArchive_archiveChallenge:
  assumes "getChallenge st = Some c"
  shows "getArchive (archiveChallenge now st) =
           getArchive st @ [challenge.extend c (archivedChallenge.fields (getCompletions st) now)]"
  using assms by (simp add: archiveChallenge_def getArchive_def Let_def)

lemma archiveChallenge_clears:
  assumes "getChallenge st = Some c"
  shows "getChallenge (archiveChallenge now st) = None"
    and "getCompletions (archiveChallenge now st) = []"
  using assms
  by (simp_all add: archiveChallenge_def getChallenge_def getCompletions_def Let_def)

lemma renderDailyTab_store: "store (renderDailyTab z now a) = store a"
  by (simp add: renderDailyTab_def split: option.splits)

lemma switchTab_store: "store (switchTab z now tb a) = store a"
  by (simp add: switchTab_def renderCurrentTab_def renderDailyTab_store split: tab.splits)

section \<open>Clearing\<close>

text \<open>
  What the two clearing operations leave behind, whatever was stored: \<^verbatim>\<open>Store.clearAll\<close>
  (called for "Delete Pending Challenge") removes the active challenge and the
  completions and keeps the archive; \<^verbatim>\<open>confirmClearAll\<close>, once both confirmations are
  given, removes all three.
\<close>

lemma clearing_reads:
  "getChallenge (clearAll st) = None \<and>
   getCompletions (clearAll st) = [] \<and>
   getArchive (clearAll st) = getArchive st \<and>
   getArchive (store (confirmDeletePending z now True a)) = getArchive (store a) \<and>
   getChallenge (store (confirmClearAll z now True True a)) = None \<and>
   getCompletions (store (confirmClearAll z now True True a)) = [] \<and>
   getArchive (store (confirmClearAll z now True True a)) = []"
  by (simp add: confirmClearAll_def confirmDeletePending_def switchTab_store
      localStorage_clear_def clearAll_def getChallenge_def getCompletions_def getArchive_def)

text \<open>
  C1, evaluated where the code departs from it. On a storage with a challenge, a day
  object and one archived challenge, \<^verbatim>\<open>Store.clearAll\<close>, whose comment is "Clear all
  data", leaves the challenge absent and the completions empty, but the archive read
  afterwards still has its element. On the same storage \<^verbatim>\<open>confirmClearAll\<close> leaves the
  archive empty as well.
\<close>

theorem clearAll_keeps_archive:
  "getArchive busyStore = [oldEntry] \<and>
   getChallenge (clearAll busyStore) = None \<and>
   getCompletions (clearAll busyStore) = [] \<and>
   getArchive (clearAll busyStore) = [oldEntry] \<and>
   getArchive (store (confirmClearAll (fixedZone 0) 1705320000000 True True busyApp)) = []"
  by (simp add: getArchive_def getChallenge_def getCompletions_def clearAll_def busyStore_def
      confirmClearAll_def switchTab_store localStorage_clear_def)

section \<open>Archiving\<close>

text \<open>
  C3: with a challenge stored, after \<^verbatim>\<open>archiveChallenge\<close> the challenge reads as
  absent and the completions as empty; the archive is one element longer, its earlier
  elements are the same and in the same places, and its last element holds the
  completions read before, the task list and the point threshold of the challenge
  (all fields of the challenge, in fact).
\<close>

theorem archive_clean_cut:
  assumes "getChallenge st = Some c"
  shows "getChallenge (archiveChallenge now st) = None \<and>
         getCompletions (archiveChallenge now st) = [] \<and>
         length (getArchive (archiveChallenge now st)) = length (getArchive st) + 1 \<and>
         completions (last (getArchive (archiveChallenge now st))) = getCompletions st \<and>
         tasks (last (getArchive (archiveChallenge now st))) = tasks c \<and>
         pointThreshold (last (getArchive (archiveChallenge now st))) = pointThreshold c \<and>
         challenge.truncate (last (getArchive (archiveChallenge now st))) = c \<and>
         take (length (getArchive st)) (getArchive (archiveChallenge now st)) = getArchive st"
  by (simp add: getArchive_archiveChallenge [OF assms] archiveChallenge_clears [OF assms]
      snapshot_fields)

theorem archive_clean_cut_witness:
  "getChallenge busyStore = Some (challengeAB 19737 3 2) \<and>
   getChallenge (archiveChallenge 1705500000000 busyStore) = None \<and>
   getCompletions (archiveChallenge 1705500000000 busyStore) = [] \<and>
   length (getArchive (archiveChallenge 1705500000000 busyStore)) = 2 \<and>
   completions (last (getArchive (archiveChallenge 1705500000000 busyStore))) =
     [(0, [(0, True), (1, False)])] \<and>
   tasks (last (getArchive (archiveChallenge 1705500000000 busyStore))) = [taskA, taskB] \<and>
   pointThreshold (last (getArchive (archiveChallenge 1705500000000 busyStore))) = 2 \<and>
   take 1 (getArchive (archiveChallenge 1705500000000 busyStore)) = [oldEntry]"
proof -
  have h: "getChallenge busyStore = Some (challengeAB 19737 3 2)"
    by (simp add: getChallenge_def busyStore_def)
  have a: "getArchive busyStore = [oldEntry]"
    by (simp add: getArchive_def busyStore_def)
  have m: "getCompletions busyStore = [(0, [(0, True), (1, False)])]"
    by (simp add: getCompletions_def busyStore_def)
  show ?thesis
    using archive_clean_cut [OF h, of 1705500000000] h
    by (simp add: a m challengeAB_def)
qed

section \<open>Saving a completion\<close>

text \<open>
  C10: \<^verbatim>\<open>saveCompletion\<close> leaves the active challenge and the archive as they were,
  and in the completions the value read for every pair of day and task other than the
  one written; the pair written reads as the value given.
\<close>

theorem saveCompletion_frame:
  "ls_activeChallenge (saveCompletion d t v st) = ls_activeChallenge st \<and>
   ls_archive (saveCompletion d t v st) = ls_archive st \<and>
   (\<forall>d' t'. (d', t') \<noteq> (d, t) \<longrightarrow>
      map_of (getDayCompletion (saveCompletion d t v st) d') t' =
      map_of (getDayCompletion st d') t') \<and>
   map_of (getDayCompletion (saveCompletion d t v st) d) t = Some v"
  by (auto simp: getDayCompletion_saveCompletion update_conv' saveCompletion_other_keys)

theorem saveCompletion_frame_witness:
  "ls_activeChallenge (saveCompletion 1 0 True busyStore) = ls_activeChallenge busyStore \<and>
   ls_archive (saveCompletion 1 0 True busyStore) = ls_archive busyStore \<and>
   (1, 1) \<noteq> (1, 0 :: int) \<and>
   map_of (getDayCompletion (saveCompletion 1 0 True busyStore) 1) 1 = None \<and>
   map_of (getDayCompletion (saveCompletion 1 0 True busyStore) 0) 0 = Some True \<and>
   map_of (getDayCompletion (saveCompletion 1 0 True busyStore) 0) 1 = Some False \<and>
   map_of (getDayCompletion (saveCompletion 1 0 True busyStore) 1) 0 = Some True"
proof -
  have r0: "getDayCompletion busyStore 0 = [(0, True), (1, False)]"
    by (simp add: getDayCompletion_def getCompletions_def busyStore_def)
  have r1: "getDayCompletion busyStore 1 = []"
    by (simp add: getDayCompletion_def getCompletions_def busyStore_def)
  show ?thesis
    using saveCompletion_frame [of 1 0 True busyStore]
    by (simp add: r0 r1)
qed

section \<open>Facts about dates\<close>

lemma roundDouble_exact: "\<bar>x\<bar> \<le> 9007199254740992 \<Longrightarrow> roundDouble x = x"
  by (simp add: roundDouble_def)

text \<open>
  Between two instants at most \<open>2 ^ 53\<close> milliseconds apart: when the elapsed time is
  \<open>n\<close> whole days and less than one day more, the result is \<open>n\<close>.
\<close>

lemma daysBetween_whole_days:
  assumes "0 \<le> s" and "s < msPerDay" and "\<bar>n * msPerDay + s\<bar> \<le> 9007199254740992"
  shows "daysBetween a (a + n * msPerDay + s) = n"
proof -
  have "(n * msPerDay + s) div msPerDay = n"
    using assms(1,2) by (simp add: div_pos_pos_trivial)
  moreover have "roundDouble (a + n * msPerDay + s - a) = n * msPerDay + s"
    using assms(3) by (simp add: roundDouble_exact)
  ultimately show ?thesis by (simp add: daysBetween_def)
qed

text \<open>When the elapsed time falls short of \<open>n\<close> whole days, the result is \<open>n - 1\<close>.\<close>

lemma daysBetween_short_day:
  assumes "0 < s" and "s \<le> msPerDay" and "\<bar>n * msPerDay - s\<bar> \<le> 9007199254740992"
  shows "daysBetween a (a + n * msPerDay - s) = n - 1"
proof -
  have "n * msPerDay - s = (n - 1) * msPerDay + (msPerDay - s)"
    by (simp add: algebra_simps)
  moreover have "((n - 1) * msPerDay + (msPerDay - s)) div msPerDay = n - 1"
    using assms(1,2) by (simp add: div_pos_pos_trivial)
  ultimately have "(n * msPerDay - s) div msPerDay = n - 1" by (simp only:)
  moreover have "roundDouble (a + n * msPerDay - s - a) = n * msPerDay - s"
    using assms(3) by (simp add: roundDouble_exact)
  ultimately show ?thesis by (simp add: daysBetween_def)
qed

text \<open>
  Between the two ends of the range of \<^verbatim>\<open>Date\<close> the difference is rounded: one
  millisecond short of 200000000 days gives 200000000.
\<close>

lemma daysBetween_far_apart:
  "daysBetween (- 8640000000000000) 8639999999999999 = 200000000"
  by (simp add: daysBetween_def roundDouble_def msPerDay_def)

lemma setHours0_fixed:
  "setHours0 (fixedZone off) t = localDay (fixedZone off) t * msPerDay - off"
  by (simp add: setHours0_def localDay_def UTC_def fixedZone_def)

lemma localDay_parse_fixed:
  assumes "0 \<le> off" and "off < msPerDay"
  shows "localDay (fixedZone off) (s * msPerDay) = s"
proof -
  have "(s * msPerDay + off) div msPerDay = s"
    using assms by (simp add: div_pos_pos_trivial)
  then show ?thesis by (simp add: localDay_def Day_def LocalTime_def fixedZone_def)
qed

lemma parseDate_fixed:
  assumes "0 \<le> off" and "off < msPerDay"
  shows "parseDate (fixedZone off) (ISODate s) = Some (s * msPerDay - off)"
  by (simp add: parseDate_def setHours0_fixed localDay_parse_fixed [OF assms])

lemma setDatePlus_fixed:
  "setDatePlus (fixedZone off) (s * msPerDay - off) n = (s + n) * msPerDay - off"
  by (simp add: setDatePlus_def Let_def LocalTime_def UTC_def fixedZone_def Day_def
      TimeWithinDay_def msPerDay_def)

text \<open>
  In a zone at or east of UTC whose offset does not change, the status compares the
  local calendar day with the first day of the challenge and the day after its last.
\<close>

lemma getChallengeStatus_fixed_east:
  assumes "getChallenge st = Some c" and "startDate c = ISODate s"
    and "0 \<le> off" and "off < msPerDay"
  shows "getChallengeStatus (fixedZone off) now st =
     Some (if localDay (fixedZone off) now < s then Pending
           else if s + totalDays c \<le> localDay (fixedZone off) now then Completed
           else Active)"
proof -
  have pos: "0 < msPerDay" by (simp add: msPerDay_def)
  have lt: "\<And>a b. (a * msPerDay - off < b * msPerDay - off) = (a < b)"
    using pos by simp
  have le: "\<And>a b. (a * msPerDay - off \<le> b * msPerDay - off) = (a \<le> b)"
    using pos by simp
  show ?thesis
    using assms(1,2)
    by (simp add: getChallengeStatus_def Let_def parseDate_fixed [OF assms(3,4)] getToday_def
        setHours0_fixed setDatePlus_fixed lt le)
qed

text \<open>
  West of UTC the parsed start is the local midnight of the day before the start date,
  and the status moves with it.
\<close>

lemma localDay_parse_fixed_west:
  assumes "- msPerDay \<le> off" and "off < 0"
  shows "localDay (fixedZone off) (s * msPerDay) = s - 1"
proof -
  have "s * msPerDay + off = (s - 1) * msPerDay + (msPerDay + off)"
    by (simp add: algebra_simps)
  moreover have "((s - 1) * msPerDay + (msPerDay + off)) div msPerDay = s - 1"
    using assms by (simp add: div_pos_pos_trivial)
  ultimately have "(s * msPerDay + off) div msPerDay = s - 1" by (simp only:)
  then show ?thesis by (simp add: localDay_def Day_def LocalTime_def fixedZone_def)
qed

lemma parseDate_fixed_west:
  assumes "- msPerDay \<le> off" and "off < 0"
  shows "parseDate (fixedZone off) (ISODate s) = Some ((s - 1) * msPerDay - off)"
  by (simp add: parseDate_def setHours0_fixed localDay_parse_fixed_west [OF assms])

lemma getChallengeStatus_fixed_west:
  assumes "getChallenge st = Some c" and "startDate c = ISODate s"
    and "- msPerDay \<le> off" and "off < 0"
  shows "getChallengeStatus (fixedZone off) now st =
     Some (if localDay (fixedZone off) now < s - 1 then Pending
           else if s - 1 + totalDays c \<le> localDay (fixedZone off) now then Completed
           else Active)"
proof -
  have pos: "0 < msPerDay" by (simp add: msPerDay_def)
  have lt: "\<And>a b. (a * msPerDay - off < b * msPerDay - off) = (a < b)"
    using pos by simp
  have le: "\<And>a b. (a * msPerDay - off \<le> b * msPerDay - off) = (a \<le> b)"
    using pos by simp
  show ?thesis
    using assms(1,2)
    by (simp add: getChallengeStatus_def Let_def parseDate_fixed_west [OF assms(3,4)]
        getToday_def setHours0_fixed setDatePlus_fixed lt le)
qed

text \<open>
  In every zone, for a start date that parses, the status is the comparison of the two
  instants the code computes: today's local midnight against the parsed start and
  against the parsed start moved by \<open>totalDays\<close> calendar days.
\<close>

lemma getChallengeStatus_cases:
  assumes "getChallenge st = Some c" and "parseDate z (startDate c) = Some start"
  shows "(getChallengeStatus z now st = Some Pending) = (getToday z now < start)"
    and "(getChallengeStatus z now st = Some Completed) =
           (start \<le> getToday z now \<and> setDatePlus z start (totalDays c) \<le> getToday z now)"
    and "(getChallengeStatus z now st = Some Active) =
           (start \<le> getToday z now \<and> getToday z now < setDatePlus z start (totalDays c))"
  using assms by (auto simp: getChallengeStatus_def Let_def)

text \<open>
  For a start date that parses and a challenge of at least one day, the current day
  index is a number of the range from 0 to \<open>totalDays - 1\<close>: the days between the
  parsed start and today's local midnight, clamped.
\<close>

lemma getCurrentDayIndex_parsed:
  assumes "getChallenge st = Some c" and "parseDate z (startDate c) = Some start"
    and "1 \<le> totalDays c"
  shows "getCurrentDayIndex z now st =
           Some (clamp (daysBetween start (getToday z now)) 0 (totalDays c - 1))"
    and "\<exists>i. getCurrentDayIndex z now st = Some i \<and> 0 \<le> i \<and> i \<le> totalDays c - 1"
  using assms by (simp_all add: getCurrentDayIndex_def clamp_def Let_def)

lemma getCurrentDayIndex_no_challenge:
  "getChallenge st = None \<Longrightarrow> getCurrentDayIndex z now st = Some 0"
  by (simp add: getCurrentDayIndex_def)

section \<open>Status\<close>

text \<open>
  C5, evaluated where the code departs from it. In the zone America/Bogota, at
  2024-01-15 12:00 local time (local day 19737): a challenge of thirty days whose start
  date is the next day, 2024-01-16, has the status active, not pending; and a challenge
  of one day whose start date is this same day has the status completed, not active.
  The start date text is read as midnight UTC, which west of UTC is still the evening
  before, and \<^verbatim>\<open>setHours(0, 0, 0, 0)\<close> then goes back to the midnight of that earlier
  day.
\<close>

theorem status_west_of_utc:
  "localDay bogota 1705338000000 = 19737 \<and>
   parseDate bogota (ISODate 19738) = Some (getToday bogota 1705338000000) \<and>
   getChallengeStatus bogota 1705338000000 (storeWith (challengeAB 19738 30 1)) = Some Active \<and>
   getChallengeStatus bogota 1705338000000 (storeWith (challengeAB 19737 1 1)) = Some Completed"
  by (simp add: localDay_def Day_def LocalTime_def bogota_def fixedZone_def msPerDay_def
      getChallengeStatus_def getChallenge_def storeWith_def challengeAB_def parseDate_def
      getToday_def setHours0_def setDatePlus_def UTC_def TimeWithinDay_def Let_def)

section \<open>Current day index\<close>

lemma submit_blankDateForm:
  "handleChallengeSubmit (fixedZone 0) 1705320000000 blankDateForm emptyApp =
     Inr (emptyApp\<lparr>store := storeWith blankDateChallenge, currentTab := Daily\<rparr>)"
  by (simp add: handleChallengeSubmit_def blankDateForm_def editForm_def emptyApp_def
      blankDateChallenge_def editedChallenge_def storeWith_def taskB_def Let_def switchTab_def
      renderCurrentTab_def renderDailyTab_def saveChallenge_def getChallenge_def
      getChallengeStatus_def parseDate_def)

text \<open>
  C6, evaluated where the code departs from it. The date input of the challenge form is
  not required: submitted with the date left empty on an empty storage, the form stores
  a challenge of seven days whose start date does not parse, and for it
  \<^verbatim>\<open>getCurrentDayIndex\<close> is \<^verbatim>\<open>NaN\<close>, no number of the range from 0 to 6. The index
  is also not the clamped day count where the parsed start is not the start date's
  midnight: in the zone America/Bogota, at 12:00 local time of 2024-01-15 (local day
  19737), for a challenge of thirty days that starts this day, no day lies between the
  local midnight of the start date (instant 1705294800000) and today's, and the index
  is 1.
\<close>

theorem getCurrentDayIndex_not_in_range:
  "handleChallengeSubmit (fixedZone 0) 1705320000000 blankDateForm emptyApp =
     Inr (emptyApp\<lparr>store := storeWith blankDateChallenge, currentTab := Daily\<rparr>) \<and>
   totalDays blankDateChallenge = 7 \<and>
   getCurrentDayIndex (fixedZone 0) 1705320000000 (storeWith blankDateChallenge) = None \<and>
   localDay bogota 1705338000000 = 19737 \<and>
   localDay bogota 1705294800000 = 19737 \<and>
   TimeWithinDay (LocalTime bogota 1705294800000) = 0 \<and>
   clamp (daysBetween 1705294800000 (getToday bogota 1705338000000)) 0 (30 - 1) = 0 \<and>
   getCurrentDayIndex bogota 1705338000000 (storeWith (challengeAB 19737 30 1)) = Some 1"
proof -
  have a: "totalDays blankDateChallenge = 7"
    by (simp add: blankDateChallenge_def editedChallenge_def)
  have b: "getCurrentDayIndex (fixedZone 0) 1705320000000 (storeWith blankDateChallenge) = None"
    by (simp add: getCurrentDayIndex_def getChallenge_def storeWith_def blankDateChallenge_def
        editedChallenge_def parseDate_def)
  have c: "localDay bogota 1705338000000 = 19737 \<and>
   localDay bogota 1705294800000 = 19737 \<and>
   TimeWithinDay (LocalTime bogota 1705294800000) = 0 \<and>
   clamp (daysBetween 1705294800000 (getToday bogota 1705338000000)) 0 (30 - 1) = 0 \<and>
   getCurrentDayIndex bogota 1705338000000 (storeWith (challengeAB 19737 30 1)) = Some 1"
    by (simp add: localDay_def Day_def LocalTime_def bogota_def fixedZone_def msPerDay_def
        getCurrentDayIndex_def getChallenge_def storeWith_def challengeAB_def parseDate_def
        getToday_def setHours0_def UTC_def TimeWithinDay_def Let_def daysBetween_def
        roundDouble_def clamp_def)
  from submit_blankDateForm a b c show ?thesis by simp
qed

section \<open>Days between two dates\<close>

text \<open>
  C9, evaluated where the code departs from it. In the zone Europe/Berlin the clocks go
  forward on 2024-03-31, so the local midnights of 2024-03-31 (day 19813) and of
  2024-04-01 (day 19814) are 23 hours apart. \<^verbatim>\<open>daysBetween\<close> of these two midnights is
  0, not 1. For a challenge that starts on 2024-03-31, at noon of 2024-04-01 the current
  day index is therefore still 0, while \<^verbatim>\<open>getChallengeStatus\<close>, which moves the date
  with \<^verbatim>\<open>setDate\<close>, already takes a challenge of one day as completed.
\<close>

theorem daysBetween_spring_forward:
  "parseDate berlin2024 (ISODate 19813) = Some 1711839600000 \<and>
   getToday berlin2024 1711965600000 = 1711922400000 \<and>
   localDay berlin2024 1711839600000 = 19813 \<and>
   TimeWithinDay (LocalTime berlin2024 1711839600000) = 0 \<and>
   localDay berlin2024 1711922400000 = 19814 \<and>
   TimeWithinDay (LocalTime berlin2024 1711922400000) = 0 \<and>
   daysBetween 1711839600000 1711922400000 = 0 \<and>
   getCurrentDayIndex berlin2024 1711965600000 (storeWith (challengeAB 19813 30 1)) = Some 0 \<and>
   getChallengeStatus berlin2024 1711965600000 (storeWith (challengeAB 19813 1 1)) =
     Some Completed"
  by (simp add: localDay_def Day_def LocalTime_def berlin2024_def msPerDay_def daysBetween_def
      roundDouble_def getChallengeStatus_def getChallenge_def storeWith_def challengeAB_def
      parseDate_def getToday_def setHours0_def setDatePlus_def UTC_def TimeWithinDay_def Let_def
      getCurrentDayIndex_def)

section \<open>Facts about counting\<close>

lemma completedCount_Nil: "completedCount [] = 0"
  by (simp add: completedCount_def)

text \<open>
  On an object, whose keys are distinct, the count the code takes over the values is
  the number of task indices that read as \<open>true\<close>.
\<close>

lemma completedCount_trueCount:
  "distinct (map fst r) \<Longrightarrow> completedCount r = trueCount r"
proof (induction r)
  case Nil
  then show ?case by (simp add: completedCount_def trueCount_def)
next
  case (Cons p r)
  obtain k v where p: "p = (k, v)" by (cases p)
  from Cons.prems p have k: "k \<notin> fst ` set r" and d: "distinct (map fst r)" by auto
  from k have nk: "map_of r k = None" by (simp add: map_of_eq_None_iff)
  have fin: "finite {t. map_of r t = Some True}"
    by (rule finite_subset [of _ "fst ` set r"]) (auto dest: map_of_SomeD intro: rev_image_eqI)
  have S: "{t. map_of (p # r) t = Some True} =
           (if v then insert k {t. map_of r t = Some True} else {t. map_of r t = Some True})"
    using nk by (auto simp: p)
  have notin: "k \<notin> {t. map_of r t = Some True}" using nk by simp
  have T: "trueCount (p # r) = trueCount r + (if v then 1 else 0)"
    unfolding trueCount_def S using fin notin by simp
  have C: "completedCount (p # r) = completedCount r + (if v then 1 else 0)"
    by (simp add: completedCount_def p)
  show ?case
    using Cons.IH [OF d] by (simp only: T C)
qed

lemma liveLoop_eq:
  "liveLoop c m i (tp, pp) =
     (tp + int (length (filter (\<lambda>d. orEmpty m d \<noteq> [] \<and>
                                   pointThreshold c \<le> completedCount (orEmpty m d))
                          [i..totalDays c - 1])),
      pp + int (length (filter (\<lambda>d. orEmpty m d \<noteq> []) [i..totalDays c - 1])))"
proof (induction "nat (totalDays c - i)" arbitrary: i tp pp)
  case 0
  then have "\<not> i < totalDays c" by simp
  then show ?case by (simp add: liveLoop.simps [of c m i tp pp])
next
  case (Suc k)
  then have lt: "i < totalDays c" and k: "k = nat (totalDays c - (i + 1))" by auto
  have up: "[i..totalDays c - 1] = i # [i + 1..totalDays c - 1]"
    using lt by (simp add: upto_rec1)
  show ?case
    using lt by (simp add: liveLoop.simps [of c m i tp pp] Let_def Suc.hyps(1) [OF k] up)
qed

lemma archiveLoop_fst:
  "fst (archiveLoop a m i (tp, tc, tt)) =
     tp + int (length (filter (\<lambda>d. pointThreshold a \<le> completedCount (orEmpty m d))
                          [i..totalDays a - 1]))"
proof (induction "nat (totalDays a - i)" arbitrary: i tp tc tt)
  case 0
  then have "\<not> i < totalDays a" by simp
  then show ?case by (simp add: archiveLoop.simps [of a m i tp tc tt])
next
  case (Suc k)
  then have lt: "i < totalDays a" and k: "k = nat (totalDays a - (i + 1))" by auto
  have up: "[i..totalDays a - 1] = i # [i + 1..totalDays a - 1]"
    using lt by (simp add: upto_rec1)
  show ?case
    using lt by (simp add: archiveLoop.simps [of a m i tp tc tt] Let_def Suc.hyps(1) [OF k] up)
qed

lemma length_filter_upto:
  "int (length (filter P [0..n - 1])) = int (card {d. 0 \<le> d \<and> d < n \<and> P d})"
proof -
  have "set (filter P [0..n - 1]) = {d. 0 \<le> d \<and> d < n \<and> P d}" by auto
  moreover have "distinct (filter P [0..n - 1])" by simp
  ultimately show ?thesis by (metis distinct_card)
qed



text \<open>\<^verbatim>\<open>saveCompletion\<close> never stores an empty day object.\<close>

lemma saveCompletion_no_empty_day:
  assumes "\<forall>d r. map_of (getCompletions st) d = Some r \<longrightarrow> r \<noteq> []"
  shows "\<forall>d' r. map_of (getCompletions (saveCompletion d t v st)) d' = Some r \<longrightarrow> r \<noteq> []"
  using assms by (auto simp: map_of_saveCompletion split: if_splits)

lemma liveTotalPoints_card:
  "liveTotalPoints c m =
     int (card {d. 0 \<le> d \<and> d < totalDays c \<and> orEmpty m d \<noteq> [] \<and>
                  pointThreshold c \<le> completedCount (orEmpty m d)})"
  by (simp only: liveTotalPoints_def liveLoop_eq fst_conv length_filter_upto)

lemma archivedTotalPoints_card:
  "archivedTotalPoints a =
     int (card {d. 0 \<le> d \<and> d < totalDays a \<and>
                  pointThreshold a \<le> completedCount (orEmpty (completions a) d)})"
  by (simp only: archivedTotalPoints_def archiveLoop_fst length_filter_upto)




text \<open>
  With a threshold of at least 1 the two totals are equal on every completions object:
  a day without a day object has no completed task and meets no such threshold. The two
  totals differ only for a threshold below 1.
\<close>

lemma totals_agree_threshold:
  assumes "1 \<le> pointThreshold c"
  shows "liveTotalPoints c m =
           archivedTotalPoints (challenge.extend c (archivedChallenge.fields m at))"
proof -
  have "\<And>d. pointThreshold c \<le> completedCount (orEmpty m d) \<Longrightarrow> orEmpty m d \<noteq> []"
    using assms by (auto simp: completedCount_Nil)
  then have "{d. 0 \<le> d \<and> d < totalDays c \<and> orEmpty m d \<noteq> [] \<and>
                  pointThreshold c \<le> completedCount (orEmpty m d)} =
        {d. 0 \<le> d \<and> d < totalDays c \<and> pointThreshold c \<le> completedCount (orEmpty m d)}"
    by blast
  then show ?thesis
    by (simp add: liveTotalPoints_card archivedTotalPoints_card snapshot_fields)
qed

section \<open>Total points, live and archived\<close>



section \<open>The point of a day\<close>

text \<open>
  C7: the point of a day is earned exactly when the number of task indices that read as
  \<open>true\<close> in the day's object is at least \<open>pointThreshold\<close>: a number equal to the
  threshold earns it, a number one below does not.
\<close>

theorem dayPointEarned_threshold:
  assumes "distinct (map fst (getDayCompletion st d))"
  shows "(dayPointEarned c st d \<longleftrightarrow> pointThreshold c \<le> trueCount (getDayCompletion st d)) \<and>
         (trueCount (getDayCompletion st d) = pointThreshold c \<longrightarrow> dayPointEarned c st d) \<and>
         (trueCount (getDayCompletion st d) = pointThreshold c - 1 \<longrightarrow>
            \<not> dayPointEarned c st d)"
  by (simp add: dayPointEarned_def completedCount_trueCount [OF assms])

theorem dayPointEarned_threshold_witness:
  "distinct (map fst (getDayCompletion busyStore 0)) \<and>
   trueCount (getDayCompletion busyStore 0) = 1 \<and>
   dayPointEarned (challengeAB 19737 3 1) busyStore 0 \<and>
   \<not> dayPointEarned (challengeAB 19737 3 2) busyStore 0"
proof -
  have r: "getDayCompletion busyStore 0 = [(0, True), (1, False)]"
    by (simp add: getDayCompletion_def getCompletions_def busyStore_def)
  have h: "distinct (map fst (getDayCompletion busyStore 0))"
    by (simp add: r)
  have n: "trueCount (getDayCompletion busyStore 0) = 1"
    using completedCount_trueCount [OF h] by (simp add: r completedCount_def)
  have p: "pointThreshold (challengeAB 19737 3 1) = 1" "pointThreshold (challengeAB 19737 3 2) = 2"
    by (simp_all add: challengeAB_def)
  show ?thesis
    using dayPointEarned_threshold [OF h, of "challengeAB 19737 3 1"]
          dayPointEarned_threshold [OF h, of "challengeAB 19737 3 2"] h
    by (simp add: n p)
qed

section \<open>Setting and toggling\<close>








section \<open>Editing\<close>

text \<open>
  What the submit handler does, whatever the status: with at least one named task and a
  threshold not above the number of named tasks it stores the challenge of the form in
  place of the stored one and leaves completions and archive as they were; otherwise it
  shows an alert and stores nothing. It has no status check and no error for a started
  challenge.
\<close>

lemma handleChallengeSubmit_saved:
  assumes "handleChallengeSubmit z now f a = Inr a'"
  shows "getChallenge (store a') =
           Some \<lparr>totalDays = input_days f, pointThreshold = input_threshold f,
                 pointReward = input_points f,
                 tasks = filter (\<lambda>item. name item \<noteq> []) (task_items f),
                 startDate = input_start_date f, createdAt = now\<rparr>"
    and "ls_completions (store a') = ls_completions (store a)"
    and "ls_archive (store a') = ls_archive (store a)"
  using assms
  by (auto simp: handleChallengeSubmit_def Let_def switchTab_store saveChallenge_def
      getChallenge_def split: if_splits)

lemma handleChallengeSubmit_saves_iff:
  "(\<exists>a'. handleChallengeSubmit z now f a = Inr a') =
     (filter (\<lambda>item. name item \<noteq> []) (task_items f) \<noteq> [] \<and>
      input_threshold f \<le> int (length (filter (\<lambda>item. name item \<noteq> []) (task_items f))))"
  by (auto simp: handleChallengeSubmit_def Let_def)

text \<open>The lock that exists is in the view, and for the active status only.\<close>

lemma renderSetupTab_active:
  "getChallengeStatus z now (store a) = Some Active \<Longrightarrow>
     renderSetupTab z now a = LockedSummary"
  by (auto simp: renderSetupTab_def Let_def getChallengeStatus_def split: option.splits)

lemma renderSetupTab_completed:
  "getChallengeStatus z now (store a) = Some Completed \<Longrightarrow>
     renderSetupTab z now a = CreateForm"
  by (auto simp: renderSetupTab_def Let_def)

lemma busyApp_pending_before:
  "getChallengeStatus (fixedZone 0) 1705276740000 (store busyApp) = Some Pending \<and>
   renderSetupTab (fixedZone 0) 1705276740000 busyApp = EditForm"
  by (simp add: renderSetupTab_def busyApp_def busyStore_def challengeAB_def getChallenge_def
      getChallengeStatus_def parseDate_def getToday_def setHours0_def setDatePlus_def UTC_def
      TimeWithinDay_def Day_def LocalTime_def fixedZone_def msPerDay_def Let_def)

lemma busyApp_active:
  "getChallengeStatus (fixedZone 0) 1705320000000 (store busyApp) = Some Active"
  by (simp add: busyApp_def busyStore_def challengeAB_def getChallenge_def
      getChallengeStatus_def parseDate_def getToday_def setHours0_def setDatePlus_def UTC_def
      TimeWithinDay_def Day_def LocalTime_def fixedZone_def msPerDay_def Let_def)

lemma submit_on_busyApp:
  "handleChallengeSubmit (fixedZone 0) 1705320000000 editForm busyApp =
     Inr (busyApp\<lparr>store := busyStore\<lparr>ls_activeChallenge := Some editedChallenge\<rparr>,
                  currentTab := Daily\<rparr>)"
  by (simp add: handleChallengeSubmit_def editForm_def busyApp_def busyStore_def
      editedChallenge_def taskB_def Let_def switchTab_def renderCurrentTab_def
      renderDailyTab_def saveChallenge_def getChallenge_def getChallengeStatus_def
      parseDate_def getToday_def setHours0_def setDatePlus_def UTC_def TimeWithinDay_def
      Day_def LocalTime_def fixedZone_def msPerDay_def)

lemma busyApp_completed_later:
  "getChallengeStatus (fixedZone 0) 1707998400000 (store busyApp) = Some Completed \<and>
   renderSetupTab (fixedZone 0) 1707998400000 busyApp = CreateForm"
  by (simp add: renderSetupTab_def busyApp_def busyStore_def challengeAB_def getChallenge_def
      getChallengeStatus_def parseDate_def getToday_def setHours0_def setDatePlus_def UTC_def
      TimeWithinDay_def Day_def LocalTime_def fixedZone_def msPerDay_def Let_def)

lemma submit_on_busyApp_later:
  "handleChallengeSubmit (fixedZone 0) 1707998400000 editForm busyApp =
     Inr (busyApp\<lparr>store := busyStore\<lparr>ls_activeChallenge :=
                                 Some (editedChallenge\<lparr>createdAt := 1707998400000\<rparr>)\<rparr>,
                  currentTab := Daily\<rparr>)"
  by (simp add: handleChallengeSubmit_def editForm_def busyApp_def busyStore_def
      editedChallenge_def taskB_def Let_def switchTab_def renderCurrentTab_def
      renderDailyTab_def saveChallenge_def getChallenge_def getChallengeStatus_def
      parseDate_def getToday_def setHours0_def setDatePlus_def UTC_def TimeWithinDay_def
      Day_def LocalTime_def fixedZone_def msPerDay_def)

text \<open>
  C2, evaluated where the code departs from it. The stored challenge of three days
  starts on 2024-01-15; at 23:59 UTC of the day before it is pending and the setup tab
  shows the edit form. At 12:00 UTC of 2024-01-15 the challenge is active; submitting
  the form then returns no error, and the stored challenge is the one of the form, not
  the one stored before. At 12:00 UTC of 2024-02-15 the challenge is completed; the
  setup tab shows the creation form, and submitting it again replaces the stored
  challenge, while the completions of the old challenge stay.
\<close>

theorem submit_while_active_overwrites:
  "renderSetupTab (fixedZone 0) 1705276740000 busyApp = EditForm \<and>
   getChallengeStatus (fixedZone 0) 1705320000000 (store busyApp) = Some Active \<and>
   getChallenge (store busyApp) = Some (challengeAB 19737 3 2) \<and>
   handleChallengeSubmit (fixedZone 0) 1705320000000 editForm busyApp =
     Inr (busyApp\<lparr>store := busyStore\<lparr>ls_activeChallenge := Some editedChallenge\<rparr>,
                  currentTab := Daily\<rparr>) \<and>
   getChallenge (busyStore\<lparr>ls_activeChallenge := Some editedChallenge\<rparr>) =
     Some editedChallenge \<and>
   editedChallenge \<noteq> challengeAB 19737 3 2 \<and>
   getChallengeStatus (fixedZone 0) 1707998400000 (store busyApp) = Some Completed \<and>
   renderSetupTab (fixedZone 0) 1707998400000 busyApp = CreateForm \<and>
   handleChallengeSubmit (fixedZone 0) 1707998400000 editForm busyApp =
     Inr (busyApp\<lparr>store := busyStore\<lparr>ls_activeChallenge :=
                                 Some (editedChallenge\<lparr>createdAt := 1707998400000\<rparr>)\<rparr>,
                  currentTab := Daily\<rparr>) \<and>
   editedChallenge\<lparr>createdAt := 1707998400000\<rparr> \<noteq> challengeAB 19737 3 2 \<and>
   getCompletions
     (busyStore\<lparr>ls_activeChallenge := Some (editedChallenge\<lparr>createdAt := 1707998400000\<rparr>)\<rparr>) =
     [(0, [(0, True), (1, False)])]"
  using busyApp_active submit_on_busyApp busyApp_pending_before busyApp_completed_later
    submit_on_busyApp_later
  by (simp add: getChallenge_def getCompletions_def busyApp_def busyStore_def
      editedChallenge_def challengeAB_def)

end
